theory Spec2Isabelle
  imports Main "HOL-Library.Monad_Syntax"
begin

section \<open>Library constructs, as far as the repository reads them\<close>

text \<open>
  The repository is a set of CDK constructs: each class has a constructor that builds child
  constructs from its props. A construct is modelled as a record of the values it was built
  from, a constructor \<open>new X(scope, id, props)\<close> as a function \<open>new_X id props\<close>.
  An optional property (\<open>field?: T\<close>) is a \<open>T option\<close>, \<open>undefined\<close> is \<open>None\<close>.
  Reading a member of \<open>undefined\<close> (as in \<open>props.alb!.loadBalancerArn\<close>, where the
  \<open>!\<close> has no effect at run time) throws a TypeError: constructors that can do so return an
  option, and \<open>None\<close> is that exception.

  Of the load-balancer classes of the library only the attributes the repository reads are kept.
\<close>

record ApplicationLoadBalancer =
  loadBalancerArn :: string
  loadBalancerDnsName :: string

record ApplicationTargetGroup =
  targetGroupArn :: string
  targetGroupName :: string

record ApplicationListener =
  listenerArn :: string

datatype ServicePrincipal = ServicePrincipal string

datatype ManagedPolicy = fromAwsManagedPolicyName string

datatype Effect = ALLOW | DENY

record PolicyStatement =
  effect :: Effect
  actions :: "string list"
  resources :: "string list"

record Role =
  roleId :: string
  assumedBy :: ServicePrincipal
  managedPolicies :: "ManagedPolicy list"
  policyStatements :: "PolicyStatement list"

definition new_Role :: "string \<Rightarrow> ServicePrincipal \<Rightarrow> Role" where
  "new_Role cid p = \<lparr>roleId = cid, assumedBy = p, managedPolicies = [], policyStatements = []\<rparr>"

definition addManagedPolicy :: "Role \<Rightarrow> ManagedPolicy \<Rightarrow> Role" where
  "addManagedPolicy r p = r\<lparr>managedPolicies := managedPolicies r @ [p]\<rparr>"

definition addToPolicy :: "Role \<Rightarrow> PolicyStatement \<Rightarrow> Role" where
  "addToPolicy r s = r\<lparr>policyStatements := policyStatements r @ [s]\<rparr>"

text \<open>
  A value of a resource's attribute or property. \<open>Attr c a\<close> stands for the attribute
  \<open>a\<close> of the construct with id \<open>c\<close> created in the same scope, a reference the library
  resolves at deployment (\<open>ecsApplication.applicationName\<close>, \<open>role.roleArn\<close>,
  \<open>fn.functionArn\<close>). A \<open>number\<close> is only passed through, never computed with; it is
  an \<open>int\<close> here.
\<close>

datatype cfn_value = Str string | Num int | Undefined | Attr string string

datatype Runtime = PYTHON_3_8

datatype Duration = seconds nat

text \<open>
  \<open>lambda.Code.fromAsset(path.join(__dirname, 'custom_resources'), {exclude: ...})\<close>: the
  directory is kept relative to the module's own directory.
\<close>

record AssetCode =
  assetDir :: string
  exclude :: "string list"

text \<open>
  A \<open>lambda.Function\<close> with the props the repository gives it. The object literal
  \<open>environment\<close> is an association list, in the order written. The field
  \<open>functionName\<close> is the prop; the attribute \<open>fn.functionName\<close> is
  \<open>get_functionName\<close>: the name the props fix, which is what the library's reference
  resolves to at deployment, or the reference itself when the props give no name.
\<close>

record lambda_Function =
  functionId :: string
  code :: AssetCode
  runtime :: Runtime
  handler :: string
  role :: Role
  functionName :: "string option"
  description :: string
  environment :: "(string \<times> string) list option"
  memorySize :: nat
  timeout :: Duration

definition get_functionName :: "lambda_Function \<Rightarrow> cfn_value" where
  "get_functionName f =
     (case functionName f of Some n \<Rightarrow> Str n | None \<Rightarrow> Attr (functionId f) ''functionName'')"

section \<open>Lifecycle hook handlers (lib/common/roles.ts, class EcsBlueGreenDeploymentHooks)\<close>

text \<open>
  The class as the pipeline instantiates it, with the props \<open>targetGroupX\<close> and
  \<open>targetGroupY\<close> and the three handlers.
\<close>

record EcsBlueGreenDeploymentHookProps =
  targetGroupX :: "ApplicationTargetGroup option"
  targetGroupY :: "ApplicationTargetGroup option"
  alb :: "ApplicationLoadBalancer option"
  prodListener :: "ApplicationListener option"

record DeploymentHook =
  name :: cfn_value

definition new_DeploymentHook :: "cfn_value \<Rightarrow> DeploymentHook" where
  "new_DeploymentHook n = \<lparr>name = n\<rparr>"

text \<open>\<open>xs?.push(x)\<close>: appends when the array is defined, does nothing otherwise.\<close>

definition push :: "'a list option \<Rightarrow> 'a \<Rightarrow> 'a list option" where
  "push xs x = map_option (\<lambda>ys. ys @ [x]) xs"

record EcsBlueGreenDeploymentHooks =
  hooksId :: string
  deploymentHooks :: "DeploymentHook list option"
  httpHeaderName :: string
  httpHeaderValueList :: string
  customLambdaServiceRole :: Role
  BeforeInstallLambda :: lambda_Function
  afterAllowTestTrafficLambda :: lambda_Function
  beforeAllowTrafficLambda :: lambda_Function

definition hooks_inlinePolicyForLambda :: PolicyStatement where
  "hooks_inlinePolicyForLambda =
     \<lparr>effect = ALLOW,
      actions = [''codedeploy:PutLifecycleEventHookExecutionStatus'',
                 ''elasticloadbalancing:Describe*'',
                 ''elasticloadbalancing:ModifyListener'',
                 ''elasticloadbalancing:CreateRule'',
                 ''elasticloadbalancing:ModifyRule'',
                 ''elasticloadbalancing:DeleteRule'',
                 ''elasticloadbalancing:SetRulePriorities''],
      resources = [''*'']\<rparr>"

definition hooks_customLambdaServiceRole :: Role where
  "hooks_customLambdaServiceRole =
     addToPolicy
       (addManagedPolicy
          (new_Role ''codeDeployHookCustomLambda'' (ServicePrincipal ''lambda.amazonaws.com''))
          (fromAwsManagedPolicyName ''service-role/AWSLambdaBasicExecutionRole''))
       hooks_inlinePolicyForLambda"

text \<open>
  The constructor. The field initialisers run first (\<open>deploymentHooks = []\<close>, the two header
  constants), then the body: the role, the three functions in the order BeforeInstall,
  AfterAllowTestTraffic, BeforeAllowTraffic, and the three \<open>push\<close> calls. Each
  \<open>props.x!.y\<close> is a bind: it throws when \<open>props.x\<close> is undefined.
\<close>

definition new_EcsBlueGreenDeploymentHooks ::
    "string \<Rightarrow> EcsBlueGreenDeploymentHookProps \<Rightarrow> EcsBlueGreenDeploymentHooks option" where
  "new_EcsBlueGreenDeploymentHooks cid props = do {
     let hooks0 = Some [];
     let headerName = ''counter_no'';
     let headerValueList = ''88888,99999'';
     let lambdaRole = hooks_customLambdaServiceRole;
     a1 \<leftarrow> alb props;
     l1 \<leftarrow> prodListener props;
     let beforeInstall =
       \<lparr>functionId = ''BeforeInstallLambda'',
        code = \<lparr>assetDir = ''custom_resources'', exclude = [''**'', ''!before_install.py'']\<rparr>,
        runtime = PYTHON_3_8,
        handler = ''before_install.handler'',
        role = lambdaRole,
        functionName = Some ''blue-green-ecs-before-install'',
        description =
          ''Deployment lifecycle hook to clean up listener rules before install replacement taskset'',
        environment = Some
          [(''APP_ALB'', loadBalancerArn a1),
           (''ALB_PROD_LISTENER'', listenerArn l1)],
        memorySize = 128,
        timeout = seconds 60\<rparr>;
     a2 \<leftarrow> alb props;
     x2 \<leftarrow> targetGroupX props;
     y2 \<leftarrow> targetGroupY props;
     l2 \<leftarrow> prodListener props;
     let afterAllowTestTraffic =
       \<lparr>functionId = ''afterAllowTestTrafficLambda'',
        code = \<lparr>assetDir = ''custom_resources'',
                exclude = [''**'', ''!after_allow_test_traffic.py'']\<rparr>,
        runtime = PYTHON_3_8,
        handler = ''after_allow_test_traffic.handler'',
        role = lambdaRole,
        functionName = Some ''blue-green-ecs-after-allow-test-traffic'',
        description = ''Deployment lifecycle hook for testing'',
        environment = Some
          [(''APP_ALB'', loadBalancerArn a2),
           (''ALB_TG_X'', targetGroupArn x2),
           (''ALB_TG_Y'', targetGroupArn y2),
           (''ALB_PROD_LISTENER'', listenerArn l2),
           (''HTTP_HEADER_NAME'', headerName),
           (''HTTP_HEADER_VALUE_LIST'', headerValueList)],
        memorySize = 128,
        timeout = seconds 60\<rparr>;
     a3 \<leftarrow> alb props;
     l3 \<leftarrow> prodListener props;
     let beforeAllowTraffic =
       \<lparr>functionId = ''beforeAllowTrafficLambda'',
        code = \<lparr>assetDir = ''custom_resources'',
                exclude = [''**'', ''!before_allow_traffic.py'']\<rparr>,
        runtime = PYTHON_3_8,
        handler = ''before_allow_traffic.handler'',
        role = lambdaRole,
        functionName = Some ''blue-green-ecs-before-allow-traffic'',
        description = ''Deployment lifecycle hook to clean up tests'',
        environment = Some
          [(''APP_ALB'', loadBalancerArn a3),
           (''ALB_PROD_LISTENER'', listenerArn l3)],
        memorySize = 128,
        timeout = seconds 60\<rparr>;
     let hooks1 = push hooks0 (new_DeploymentHook (get_functionName beforeInstall));
     let hooks2 = push hooks1 (new_DeploymentHook (get_functionName afterAllowTestTraffic));
     let hooks3 = push hooks2 (new_DeploymentHook (get_functionName beforeAllowTraffic));
     Some \<lparr>hooksId = cid,
           deploymentHooks = hooks3,
           httpHeaderName = headerName,
           httpHeaderValueList = headerValueList,
           EcsBlueGreenDeploymentHooks.customLambdaServiceRole = lambdaRole,
           BeforeInstallLambda = beforeInstall,
           afterAllowTestTrafficLambda = afterAllowTestTraffic,
           beforeAllowTrafficLambda = beforeAllowTraffic\<rparr>
   }"

text \<open>The handlers of a hooks component, in the order the constructor creates them.\<close>

definition hookHandlers :: "EcsBlueGreenDeploymentHooks \<Rightarrow> lambda_Function list" where
  "hookHandlers h =
     [BeforeInstallLambda h, afterAllowTestTrafficLambda h, beforeAllowTrafficLambda h]"

text \<open>
  What a handler finds under a key of its environment (\<open>os.environ[k]\<close> on the handler's
  side).
\<close>

definition envLookup :: "lambda_Function \<Rightarrow> string \<Rightarrow> string option" where
  "envLookup f k = (case environment f of None \<Rightarrow> None | Some env \<Rightarrow> map_of env k)"

section \<open>Deployment group registration (lib/ecs/deployment-group.ts, class EcsBlueGreenDeploymentGroup)\<close>

definition str_value :: "string option \<Rightarrow> cfn_value" where
  "str_value s = (case s of None \<Rightarrow> Undefined | Some v \<Rightarrow> Str v)"

definition num_value :: "int option \<Rightarrow> cfn_value" where
  "num_value n = (case n of None \<Rightarrow> Undefined | Some v \<Rightarrow> Num v)"

definition roleArn :: "Role \<Rightarrow> cfn_value" where
  "roleArn r = Attr (roleId r) ''roleArn''"

definition functionArn :: "lambda_Function \<Rightarrow> cfn_value" where
  "functionArn f = Attr (functionId f) ''functionArn''"

datatype EcsApplication = EcsApplication string

fun applicationName :: "EcsApplication \<Rightarrow> cfn_value" where
  "applicationName (EcsApplication cid) = Attr cid ''applicationName''"

text \<open>
  The class \<open>TargetGroupAlarm\<close> is declared in \<open>lib/ecs/alarms.ts\<close>, which is not among
  the sources: the alarm type is the type parameter \<open>'alarm\<close>, and \<open>JSON.stringify\<close> on
  a list of alarms is a parameter of the constructor. \<open>JSON.stringify(undefined)\<close> is
  \<open>undefined\<close>.
\<close>

record 'alarm EcsBlueGreenDeploymentGroupProps =
  deploymentGroupName :: "string option"
  deploymentConfigName :: "string option"
  terminationWaitTime :: "int option"
  deploymentReadyWaitTime :: "int option"
  blueTargetGroupName :: "string option"
  greenTargetGroupName :: "string option"
  targetGroupAlarms :: "'alarm list option"
  prodListenerArn :: "string option"
  testListenerArn :: "string option"
  ecsClusterName :: "string option"
  ecsServiceName :: "string option"

record CustomResource =
  resourceId :: string
  serviceToken :: cfn_value
  properties :: "(string \<times> cfn_value) list"

datatype IEcsDeploymentConfig = fromEcsDeploymentConfigName string "string option"

record IEcsDeploymentGroup =
  importId :: string
  application :: EcsApplication
  deploymentGroupName :: "string option"
  deploymentConfig :: IEcsDeploymentConfig

record EcsBlueGreenDeploymentGroup =
  groupId :: string
  ecsApplication :: EcsApplication
  codeDeployServiceRole :: Role
  customLambdaServiceRole :: Role
  createDeploymentGroupLambda :: lambda_Function
  customEcsDeploymentGroup :: CustomResource
  ecsDeploymentGroup :: IEcsDeploymentGroup

definition group_inlinePolicyForLambda :: PolicyStatement where
  "group_inlinePolicyForLambda =
     \<lparr>effect = ALLOW,
      actions = [''iam:PassRole'',
                 ''sts:AssumeRole'',
                 ''codedeploy:List*'',
                 ''codedeploy:Get*'',
                 ''codedeploy:UpdateDeploymentGroup'',
                 ''codedeploy:CreateDeploymentGroup'',
                 ''codedeploy:DeleteDeploymentGroup''],
      resources = [''*'']\<rparr>"

text \<open>
  The constructor reads no member of an optional prop: \<open>props.deploymentGroupName!\<close> and
  \<open>props.deploymentConfigName!\<close> hand the value on as it is, so the constructor returns
  for every props.
\<close>

definition new_EcsBlueGreenDeploymentGroup ::
    "('alarm list \<Rightarrow> string) \<Rightarrow> string \<Rightarrow> 'alarm EcsBlueGreenDeploymentGroupProps
       \<Rightarrow> EcsBlueGreenDeploymentGroup" where
  "new_EcsBlueGreenDeploymentGroup stringify cid props =
    (let app = EcsApplication ''ecsApplication'';
         serviceRole =
           addManagedPolicy
             (new_Role ''ecsCodeDeployServiceRole'' (ServicePrincipal ''codedeploy.amazonaws.com''))
             (fromAwsManagedPolicyName ''AWSCodeDeployRoleForECS'');
         lambdaRole =
           addToPolicy
             (addManagedPolicy
                (new_Role ''codeDeployCustomLambda'' (ServicePrincipal ''lambda.amazonaws.com''))
                (fromAwsManagedPolicyName ''service-role/AWSLambdaBasicExecutionRole''))
             group_inlinePolicyForLambda;
         createLambda =
           \<lparr>functionId = ''createDeploymentGroupLambda'',
            code = \<lparr>assetDir = ''custom_resources'',
                    exclude = [''**'', ''!create_deployment_group.py'']\<rparr>,
            runtime = PYTHON_3_8,
            handler = ''create_deployment_group.handler'',
            role = lambdaRole,
            functionName = None,
            description = ''Custom resource to create ECS deployment group'',
            environment = None,
            memorySize = 128,
            timeout = seconds 60\<rparr>;
         resource =
           \<lparr>resourceId = ''customEcsDeploymentGroup'',
            serviceToken = functionArn createLambda,
            properties =
              [(''ApplicationName'', applicationName app),
               (''DeploymentGroupName'',
                  str_value (EcsBlueGreenDeploymentGroupProps.deploymentGroupName props)),
               (''DeploymentConfigName'', str_value (deploymentConfigName props)),
               (''ServiceRoleArn'', roleArn serviceRole),
               (''BlueTargetGroup'', str_value (blueTargetGroupName props)),
               (''GreenTargetGroup'', str_value (greenTargetGroupName props)),
               (''ProdListenerArn'', str_value (prodListenerArn props)),
               (''TestListenerArn'', str_value (testListenerArn props)),
               (''TargetGroupAlarms'', str_value (map_option stringify (targetGroupAlarms props))),
               (''EcsClusterName'', str_value (ecsClusterName props)),
               (''EcsServiceName'', str_value (ecsServiceName props)),
               (''TerminationWaitTime'', num_value (terminationWaitTime props)),
               (''DeploymentReadyWaitTime'', num_value (deploymentReadyWaitTime props))]\<rparr>
     in \<lparr>groupId = cid,
         ecsApplication = app,
         codeDeployServiceRole = serviceRole,
         customLambdaServiceRole = lambdaRole,
         createDeploymentGroupLambda = createLambda,
         customEcsDeploymentGroup = resource,
         ecsDeploymentGroup =
           \<lparr>importId = ''ecsDeploymentGroup'',
            application = app,
            IEcsDeploymentGroup.deploymentGroupName =
              EcsBlueGreenDeploymentGroupProps.deploymentGroupName props,
            deploymentConfig =
              fromEcsDeploymentConfigName ''ecsDeploymentConfig'' (deploymentConfigName props)\<rparr>\<rparr>)"


section \<open>The pipeline (lib/ecs/deployment-group.ts, class EcsBlueGreenPipeline)\<close>

text \<open>
  The classes \<open>EcsBlueGreenService\<close> and \<open>EcsServiceAlarms\<close> come from the library index
  and are not among the sources. Their props and the members the pipeline reads are the records
  below; their constructors are parameters of the pipeline's constructor.
\<close>

record ICluster =
  clusterName :: string

record IVpc =
  vpcId :: string

record BaseService =
  serviceName :: string

record EcsBlueGreenServiceProps =
  containerPort :: "int option"
  apiName :: "string option"
  ecrRepository :: "string option"
  ecsTaskRole :: "string option"
  vpc :: "IVpc option"
  cluster :: "ICluster option"

record EcsBlueGreenService =
  alb :: ApplicationLoadBalancer
  blueTargetGroup :: ApplicationTargetGroup
  greenTargetGroup :: ApplicationTargetGroup
  albProdListener :: ApplicationListener
  albTestListener :: ApplicationListener
  ecsService :: BaseService

record EcsServiceAlarmsProps =
  alb :: "ApplicationLoadBalancer option"
  blueTargetGroup :: "ApplicationTargetGroup option"
  greenTargetGroup :: "ApplicationTargetGroup option"
  apiName :: "string option"

record EcsBlueGreenPipelineProps =
  codeRepoName :: "string option"
  ecrRepoName :: "string option"
  codeBuildProjectName :: "string option"
  ecsTaskRoleArn :: "string option"
  containerPort :: "int option"
  apiName :: "string option"
  vpc :: "IVpc option"
  cluster :: "ICluster option"
  taskSetTerminationTimeInMinutes :: "int option"
  deploymentReadyWaitTimeinMinutes :: "int option"
  deploymentConfigName :: "string option"

datatype Artifact = Artifact string

datatype Action =
    CodeCommitSourceAction string "string option" Artifact string
  | CodeBuildAction string "string option" Artifact "Artifact list"
  | CodeDeployEcsDeployAction string IEcsDeploymentGroup Artifact Artifact

record StageProps =
  stageName :: string
  actions :: "Action list"

text \<open>
  \<open>dependencies\<close> holds the ids of the constructs given to \<open>pipeline.node.addDependency\<close>;
  they are children of the same scope, where an id names one construct.
\<close>

record Pipeline =
  pipelineId :: string
  role :: Role
  artifactBucket :: string
  stages :: "StageProps list"
  dependencies :: "string list"

definition addDependency :: "Pipeline \<Rightarrow> string \<Rightarrow> Pipeline" where
  "addDependency p cid = p\<lparr>dependencies := dependencies p @ [cid]\<rparr>"

definition codePipelinePolicy :: PolicyStatement where
  "codePipelinePolicy =
     \<lparr>effect = ALLOW,
      PolicyStatement.actions =
        [''iam:PassRole'',
         ''sts:AssumeRole'',
         ''codecommit:Get*'',
         ''codecommit:List*'',
         ''codecommit:GitPull'',
         ''codecommit:UploadArchive'',
         ''codecommit:CancelUploadArchive'',
         ''codebuild:BatchGetBuilds'',
         ''codebuild:StartBuild'',
         ''codedeploy:CreateDeployment'',
         ''codedeploy:Get*'',
         ''codedeploy:RegisterApplicationRevision'',
         ''s3:Get*'',
         ''s3:List*'',
         ''s3:PutObject''],
      resources = [''*'']\<rparr>"

record 'alarm EcsBlueGreenPipeline =
  ecsBlueGreenService :: EcsBlueGreenService
  ecsServiceAlarms :: "'alarm list option"
  ecsBlueGreenDeploymentGroup :: EcsBlueGreenDeploymentGroup
  ecsBlueGreenDeploymentHooks :: EcsBlueGreenDeploymentHooks
  pipeline :: Pipeline

text \<open>
  The constructor, up to \<open>pipeline.node.addDependency\<close>. What follows it in the source (the
  network load balancer, the API gateway and the outputs) and the artifact bucket's resource
  policy read nothing of the deployment group, the hooks or the pipeline, and are left out.
  \<open>props.cluster?.clusterName\<close> is \<open>map_option clusterName\<close>.
\<close>

definition new_EcsBlueGreenPipeline ::
    "(EcsBlueGreenServiceProps \<Rightarrow> EcsBlueGreenService) \<Rightarrow>
     (EcsServiceAlarmsProps \<Rightarrow> 'alarm list option) \<Rightarrow>
     ('alarm list \<Rightarrow> string) \<Rightarrow>
     EcsBlueGreenPipelineProps \<Rightarrow> 'alarm EcsBlueGreenPipeline option" where
  "new_EcsBlueGreenPipeline new_EcsBlueGreenService new_EcsServiceAlarms stringify props = do {
     let codeRepo = codeRepoName props;
     let ecrRepo = ecrRepoName props;
     let codeBuildProject = codeBuildProjectName props;
     let taskRole = ecsTaskRoleArn props;
     let codePipelineRole =
       addToPolicy (new_Role ''codePipelineRole'' (ServicePrincipal ''codepipeline.amazonaws.com''))
         codePipelinePolicy;
     let sourceArtifact = Artifact ''sourceArtifact'';
     let buildArtifact = Artifact ''buildArtifact'';
     let artifactsBucket = ''artifactsBucket'';
     let service = new_EcsBlueGreenService
       \<lparr>EcsBlueGreenServiceProps.containerPort = EcsBlueGreenPipelineProps.containerPort props,
        EcsBlueGreenServiceProps.apiName = EcsBlueGreenPipelineProps.apiName props,
        ecrRepository = ecrRepo,
        ecsTaskRole = taskRole,
        EcsBlueGreenServiceProps.vpc = EcsBlueGreenPipelineProps.vpc props,
        EcsBlueGreenServiceProps.cluster = EcsBlueGreenPipelineProps.cluster props\<rparr>;
     let alarms = new_EcsServiceAlarms
       \<lparr>EcsServiceAlarmsProps.alb = Some (EcsBlueGreenService.alb service),
        EcsServiceAlarmsProps.blueTargetGroup = Some (EcsBlueGreenService.blueTargetGroup service),
        EcsServiceAlarmsProps.greenTargetGroup =
          Some (EcsBlueGreenService.greenTargetGroup service),
        EcsServiceAlarmsProps.apiName = EcsBlueGreenPipelineProps.apiName props\<rparr>;
     let deploymentGroup = new_EcsBlueGreenDeploymentGroup stringify ''ecsApplication''
       \<lparr>EcsBlueGreenDeploymentGroupProps.deploymentGroupName =
          EcsBlueGreenPipelineProps.apiName props,
        EcsBlueGreenDeploymentGroupProps.deploymentConfigName =
          EcsBlueGreenPipelineProps.deploymentConfigName props,
        terminationWaitTime = taskSetTerminationTimeInMinutes props,
        deploymentReadyWaitTime = deploymentReadyWaitTimeinMinutes props,
        blueTargetGroupName =
          Some (targetGroupName (EcsBlueGreenService.blueTargetGroup service)),
        greenTargetGroupName =
          Some (targetGroupName (EcsBlueGreenService.greenTargetGroup service)),
        targetGroupAlarms = alarms,
        prodListenerArn = Some (listenerArn (albProdListener service)),
        testListenerArn = Some (listenerArn (albTestListener service)),
        ecsClusterName =
          map_option clusterName (EcsBlueGreenPipelineProps.cluster props),
        ecsServiceName = Some (serviceName (ecsService service))\<rparr>;
     hooks \<leftarrow> new_EcsBlueGreenDeploymentHooks ''hooks''
       \<lparr>targetGroupX = Some (EcsBlueGreenService.blueTargetGroup service),
        targetGroupY = Some (EcsBlueGreenService.greenTargetGroup service),
        EcsBlueGreenDeploymentHookProps.alb = Some (EcsBlueGreenService.alb service),
        prodListener = Some (albProdListener service)\<rparr>;
     let pipeline0 =
       \<lparr>pipelineId = ''ecsBlueGreen'',
        Pipeline.role = codePipelineRole,
        artifactBucket = artifactsBucket,
        stages =
          [\<lparr>stageName = ''Source'',
            StageProps.actions =
              [CodeCommitSourceAction ''Source'' codeRepo sourceArtifact ''main'']\<rparr>,
           \<lparr>stageName = ''Build'',
            StageProps.actions =
              [CodeBuildAction ''Build'' codeBuildProject sourceArtifact [buildArtifact]]\<rparr>,
           \<lparr>stageName = ''Deploy'',
            StageProps.actions =
              [CodeDeployEcsDeployAction ''Deploy'' (ecsDeploymentGroup deploymentGroup)
                 buildArtifact buildArtifact]\<rparr>],
        dependencies = []\<rparr>;
     let pipeline1 = addDependency pipeline0 (groupId deploymentGroup);
     Some \<lparr>ecsBlueGreenService = service,
           ecsServiceAlarms = alarms,
           ecsBlueGreenDeploymentGroup = deploymentGroup,
           ecsBlueGreenDeploymentHooks = hooks,
           pipeline = pipeline1\<rparr>
   }"

text \<open>The deployment groups the actions of a list of stages deploy to.\<close>

fun deployTargets :: "Action list \<Rightarrow> IEcsDeploymentGroup list" where
  "deployTargets [] = []"
| "deployTargets (CodeDeployEcsDeployAction n g a t # as) = g # deployTargets as"
| "deployTargets (_ # as) = deployTargets as"

section \<open>The stack's parameters (bin script of the pipeline stack, class BlueGreenPipelineStack)\<close>

record CfnParameter =
  parameterId :: string
  parameterType :: string
  defaultValue :: "string option"
  allowedValues :: "string list option"
  parameterDescription :: string

definition stack_deploymentConfigName :: CfnParameter where
  "stack_deploymentConfigName =
     \<lparr>parameterId = ''deploymentConfigName'',
      parameterType = ''String'',
      defaultValue = Some ''CodeDeployDefault.ECSLinear10PercentEvery1Minutes'',
      allowedValues = Some
        [''CodeDeployDefault.ECSLinear10PercentEvery1Minutes'',
         ''CodeDeployDefault.ECSLinear10PercentEvery3Minutes'',
         ''CodeDeployDefault.ECSCanary10Percent5Minutes'',
         ''CodeDeployDefault.ECSCanary10Percent15Minutes'',
         ''CodeDeployDefault.ECSAllAtOnce''],
      parameterDescription =
        ''Shifts x percentage of traffic every x minutes until all traffic is shifted''\<rparr>"

definition stack_taskSetTerminationTimeInMinutes :: CfnParameter where
  "stack_taskSetTerminationTimeInMinutes =
     \<lparr>parameterId = ''taskSetTerminationTimeInMinutes'',
      parameterType = ''Number'',
      defaultValue = Some ''10'',
      allowedValues = None,
      parameterDescription = ''TaskSet termination time in minutes''\<rparr>"

definition stack_deploymentReadyWaitTimeinMinutes :: CfnParameter where
  "stack_deploymentReadyWaitTimeinMinutes =
     \<lparr>parameterId = ''deploymentReadyWaitTimeinMinutes'',
      parameterType = ''Number'',
      defaultValue = Some ''0'',
      allowedValues = None,
      parameterDescription =
        ''Minutes to wait before deployment status changed to Stopped if rerouting is not started manually''\<rparr>"

text \<open>
  What \<open>allowedValues\<close> means to the platform that instantiates the template: a parameter with
  a list of allowed values takes only a value of the list, one without takes any.
\<close>

definition admissible :: "CfnParameter \<Rightarrow> string \<Rightarrow> bool" where
  "admissible p v = (case allowedValues p of None \<Rightarrow> True | Some vs \<Rightarrow> v \<in> set vs)"


section \<open>The handlers' side, from the specification\<close>

text \<open>
  Modelled from the spec: how the AfterAllowTestTraffic handler
  (\<open>custom_resources/after_allow_test_traffic.py\<close>, not among the sources) reads
  \<open>HTTP_HEADER_VALUE_LIST\<close>. The specification gives the accepted values as a set,
  \<open>counter_no \<in> {88888,99999}\<close>; the constructor passes one string, so the values are its
  comma-separated fields.
\<close>

fun splitOn :: "char \<Rightarrow> string \<Rightarrow> string list" where
  "splitOn sep [] = [[]]"
| "splitOn sep (c # cs) =
     (if c = sep then [] # splitOn sep cs
      else (case splitOn sep cs of [] \<Rightarrow> [[c]] | f # fs \<Rightarrow> (c # f) # fs))"

text \<open>
  Modelled from the spec: the registrar's \<open>upsert\<close>, which the custom resource invokes; its
  handler (\<open>custom_resources/create_deployment_group.py\<close>) is not among the sources. A spec
  carries the fields of the registrar invocation contract (\<open>dgName\<close> is its
  \<open>deploymentGroupName\<close>, and so on). The registry is the list of the
  groups that exist. Following section 4.1: an unknown deployment-config name signals
  \<open>InvalidConfig\<close> (the closed set is the one the stack's parameter allows); when no group
  has the name, the group is created; when one has, a different target-group pair signals
  \<open>RegistrationConflict\<close>, and otherwise the mutable fields (alarms, wait times, config name)
  are updated in place.
\<close>

datatype RegistrarError = RegistrationConflict | InvalidConfig

text \<open>Modelled from the spec: the fields of the registrar invocation contract (section 6).\<close>

record DeploymentGroupSpec =
  dgApplicationName :: string
  dgName :: string
  dgConfigName :: string
  dgServiceRoleArn :: string
  dgBlueTargetGroup :: string
  dgGreenTargetGroup :: string
  dgProdListenerArn :: string
  dgTestListenerArn :: string
  dgAlarms :: "string list"
  dgEcsClusterName :: string
  dgEcsServiceName :: string
  dgTerminationWaitTimeMinutes :: int
  dgDeploymentReadyWaitTimeMinutes :: int

type_synonym Registry = "DeploymentGroupSpec list"

text \<open>
  Modelled from the spec: the closed set of traffic-shift policies a deployment-config name is
  drawn from (section 4.1), taken to be the values the stack's parameter allows.
\<close>

definition trafficShiftPolicies :: "string list" where
  "trafficShiftPolicies = (case allowedValues stack_deploymentConfigName of
     None \<Rightarrow> [] | Some vs \<Rightarrow> vs)"

text \<open>
  Modelled from the spec: the update in place of the mutable fields, "alarms, wait times,
  config name" (section 4.1).
\<close>

definition updateMutable :: "DeploymentGroupSpec \<Rightarrow> DeploymentGroupSpec \<Rightarrow> DeploymentGroupSpec" where
  "updateMutable existing g =
     existing\<lparr>dgAlarms := dgAlarms g,
              dgTerminationWaitTimeMinutes := dgTerminationWaitTimeMinutes g,
              dgDeploymentReadyWaitTimeMinutes := dgDeploymentReadyWaitTimeMinutes g,
              dgConfigName := dgConfigName g\<rparr>"

text \<open>Modelled from the spec: a group is looked up by its deployment-group name.\<close>

definition named :: "string \<Rightarrow> DeploymentGroupSpec \<Rightarrow> bool" where
  "named n g = (dgName g = n)"

text \<open>
  Modelled from the spec: \<open>upsert(group) -> handle\<close> (section 4.1); the handle is the
  group's name.
\<close>

definition upsert :: "DeploymentGroupSpec \<Rightarrow> Registry \<Rightarrow> RegistrarError + (string \<times> Registry)" where
  "upsert g reg =
     (let n = dgName g in
      if dgConfigName g \<notin> set trafficShiftPolicies then Inl InvalidConfig
      else (case find (named n) reg of
          None \<Rightarrow> Inr (n, reg @ [g])
        | Some existing \<Rightarrow>
            if (dgBlueTargetGroup existing, dgGreenTargetGroup existing)
               \<noteq> (dgBlueTargetGroup g, dgGreenTargetGroup g)
            then Inl RegistrationConflict
            else Inr (n, map (\<lambda>x. if named n x then updateMutable x g else x) reg)))"

text \<open>
  Modelled from the spec: "performing an identical upsert twice", the retry running on what the
  first call left behind, or not at all when the first call failed.
\<close>

definition upsertTwice :: "DeploymentGroupSpec \<Rightarrow> Registry \<Rightarrow> RegistrarError + (string \<times> Registry)" where
  "upsertTwice g reg =
     (case upsert g reg of Inl e \<Rightarrow> Inl e | Inr (h, reg') \<Rightarrow> upsert g reg')"

text \<open>
  Modelled from the spec: \<open>isolateTestTraffic\<close> of the listener rule controller, the action of
  the AfterAllowTestTraffic handler (\<open>custom_resources/after_allow_test_traffic.py\<close>, not
  among the sources). Following section 4.2: a missing listener or target group signals
  \<open>ResourceNotFound\<close>; the rule matches a header name against a set of values on the given
  listener and routes to the given slot; following section 4.3, a call with the parameters of a
  rule that is already there adds nothing. The rule's priority is not described and is left
  out.
\<close>

datatype ControllerError = ResourceNotFound

text \<open>
  Modelled from the spec: a listener rule (section 3) without its priority, and a load
  balancer with its listeners, its target groups and the test-isolation rules on its listeners.
\<close>

record ListenerRule =
  ruleListener :: string
  matchHeaderName :: string
  matchHeaderValues :: "string list"
  ruleTarget :: string

record LoadBalancer =
  listeners :: "string list"
  targetGroups :: "string list"
  rules :: "ListenerRule list"

type_synonym Balancers = "string \<rightharpoonup> LoadBalancer"

text \<open>
  Modelled from the spec:
  \<open>isolateTestTraffic(albRef, testListenerRef, targetSlot, matchHeader) -> RuleHandle\<close>
  (section 4.2); the handle is the rule.
\<close>

definition isolateTestTraffic ::
    "string \<Rightarrow> string \<Rightarrow> string \<Rightarrow> string \<times> string list \<Rightarrow> Balancers
       \<Rightarrow> ControllerError + (ListenerRule \<times> Balancers)" where
  "isolateTestTraffic albRef testListenerRef targetSlot matchHeader st =
     (case st albRef of
        None \<Rightarrow> Inl ResourceNotFound
      | Some lb \<Rightarrow>
          if testListenerRef \<notin> set (listeners lb) \<or> targetSlot \<notin> set (targetGroups lb)
          then Inl ResourceNotFound
          else
            (let r = \<lparr>ruleListener = testListenerRef,
                      matchHeaderName = fst matchHeader,
                      matchHeaderValues = snd matchHeader,
                      ruleTarget = targetSlot\<rparr>
             in if r \<in> set (rules lb) then Inr (r, st)
                else Inr (r, st(albRef \<mapsto> lb\<lparr>rules := rules lb @ [r]\<rparr>))))"

text \<open>
  Modelled from the spec: a sequence of repeated identical \<open>isolateTestTraffic\<close> calls
  (section 8), stopping at the first that fails.
\<close>

fun isolateRepeatedly ::
    "nat \<Rightarrow> string \<Rightarrow> string \<Rightarrow> string \<Rightarrow> string \<times> string list \<Rightarrow> Balancers
       \<Rightarrow> ControllerError + Balancers" where
  "isolateRepeatedly 0 albRef l t m st = Inr st"
| "isolateRepeatedly (Suc k) albRef l t m st =
     (case isolateTestTraffic albRef l t m st of
        Inl e \<Rightarrow> Inl e
      | Inr (r, st') \<Rightarrow> isolateRepeatedly k albRef l t m st')"

text \<open>Modelled from the spec: the test-isolation rules on a listener of a load balancer.\<close>

definition rulesOn :: "Balancers \<Rightarrow> string \<Rightarrow> string \<Rightarrow> ListenerRule list" where
  "rulesOn st albRef l =
     (case st albRef of
        None \<Rightarrow> []
      | Some lb \<Rightarrow> filter (\<lambda>r. ruleListener r = l) (rules lb))"

section \<open>Inputs for running the constructors and the handlers\<close>

text \<open>
  A service with distinct production and test listeners, alarms named by strings, and the props
  of the repository's own test of the pipeline (\<open>apiName: 'books'\<close>).
\<close>

definition sample_hook_props :: EcsBlueGreenDeploymentHookProps where
  "sample_hook_props =
     \<lparr>targetGroupX = Some \<lparr>targetGroupArn = ''arn:tg/blue'', targetGroupName = ''blue''\<rparr>,
      targetGroupY = Some \<lparr>targetGroupArn = ''arn:tg/green'', targetGroupName = ''green''\<rparr>,
      EcsBlueGreenDeploymentHookProps.alb =
        Some \<lparr>loadBalancerArn = ''arn:alb'', loadBalancerDnsName = ''alb.internal''\<rparr>,
      prodListener = Some \<lparr>listenerArn = ''arn:listener/prod''\<rparr>\<rparr>"

definition sample_service :: "EcsBlueGreenServiceProps \<Rightarrow> EcsBlueGreenService" where
  "sample_service p =
     \<lparr>EcsBlueGreenService.alb =
        \<lparr>loadBalancerArn = ''arn:alb'', loadBalancerDnsName = ''alb.internal''\<rparr>,
      EcsBlueGreenService.blueTargetGroup =
        \<lparr>targetGroupArn = ''arn:tg/blue'', targetGroupName = ''blue''\<rparr>,
      EcsBlueGreenService.greenTargetGroup =
        \<lparr>targetGroupArn = ''arn:tg/green'', targetGroupName = ''green''\<rparr>,
      albProdListener = \<lparr>listenerArn = ''arn:listener/prod''\<rparr>,
      albTestListener = \<lparr>listenerArn = ''arn:listener/test''\<rparr>,
      ecsService = \<lparr>serviceName = ''service''\<rparr>\<rparr>"

definition sample_alarms :: "EcsServiceAlarmsProps \<Rightarrow> string list option" where
  "sample_alarms p = Some [''blue-4xx'', ''green-4xx'']"

definition sample_stringify :: "string list \<Rightarrow> string" where
  "sample_stringify xs = ''['' @ concat (map (\<lambda>x. ''<'' @ x @ ''>'') xs) @ '']''"

definition sample_pipeline_props :: EcsBlueGreenPipelineProps where
  "sample_pipeline_props =
     \<lparr>codeRepoName = Some ''books'',
      ecrRepoName = Some ''books-repo'',
      codeBuildProjectName = Some ''books-build'',
      ecsTaskRoleArn = Some ''arn:role/task'',
      EcsBlueGreenPipelineProps.containerPort = Some 9000,
      EcsBlueGreenPipelineProps.apiName = Some ''books'',
      EcsBlueGreenPipelineProps.vpc = Some \<lparr>vpcId = ''vpc''\<rparr>,
      EcsBlueGreenPipelineProps.cluster = Some \<lparr>clusterName = ''cluster''\<rparr>,
      taskSetTerminationTimeInMinutes = Some 10,
      deploymentReadyWaitTimeinMinutes = None,
      EcsBlueGreenPipelineProps.deploymentConfigName =
        Some ''CodeDeployDefault.ECSLinear10PercentEvery1Minutes''\<rparr>"

definition sample_pipeline :: "string EcsBlueGreenPipeline option" where
  "sample_pipeline =
     new_EcsBlueGreenPipeline sample_service sample_alarms sample_stringify sample_pipeline_props"

definition sample_group :: DeploymentGroupSpec where
  "sample_group =
     \<lparr>dgApplicationName = ''app'',
      dgName = ''books'',
      dgConfigName = ''CodeDeployDefault.ECSLinear10PercentEvery1Minutes'',
      dgServiceRoleArn = ''arn:role/codedeploy'',
      dgBlueTargetGroup = ''blue'',
      dgGreenTargetGroup = ''green'',
      dgProdListenerArn = ''arn:listener/prod'',
      dgTestListenerArn = ''arn:listener/test'',
      dgAlarms = [''blue-4xx'', ''green-4xx''],
      dgEcsClusterName = ''cluster'',
      dgEcsServiceName = ''service'',
      dgTerminationWaitTimeMinutes = 10,
      dgDeploymentReadyWaitTimeMinutes = 0\<rparr>"

definition sample_balancers :: Balancers where
  "sample_balancers =
     [''arn:alb'' \<mapsto>
        \<lparr>listeners = [''arn:listener/prod'', ''arn:listener/test''],
         targetGroups = [''arn:tg/blue'', ''arn:tg/green''],
         rules = []\<rparr>]"


section \<open>The hooks component: what it registers and what each handler is given\<close>

lemma new_hooks_SomeD:
  assumes "new_EcsBlueGreenDeploymentHooks cid props = Some h"
  obtains a x y l where "EcsBlueGreenDeploymentHookProps.alb props = Some a"
    "targetGroupX props = Some x" "targetGroupY props = Some y" "prodListener props = Some l"
  using assms unfolding new_EcsBlueGreenDeploymentHooks_def
  by (auto simp: Let_def split: Option.bind_splits)

text \<open>With all four props defined the constructor returns, and this is the component.\<close>

lemma new_hooks_value:
  assumes "EcsBlueGreenDeploymentHookProps.alb props = Some a" "targetGroupX props = Some x"
    "targetGroupY props = Some y" "prodListener props = Some l"
  shows "new_EcsBlueGreenDeploymentHooks cid props = Some
    \<lparr>hooksId = cid,
     deploymentHooks = Some [\<lparr>name = Str ''blue-green-ecs-before-install''\<rparr>,
                 \<lparr>name = Str ''blue-green-ecs-after-allow-test-traffic''\<rparr>,
                 \<lparr>name = Str ''blue-green-ecs-before-allow-traffic''\<rparr>],
     httpHeaderName = ''counter_no'',
     httpHeaderValueList = ''88888,99999'',
     EcsBlueGreenDeploymentHooks.customLambdaServiceRole = hooks_customLambdaServiceRole,
     BeforeInstallLambda =
       \<lparr>functionId = ''BeforeInstallLambda'',
        code = \<lparr>assetDir = ''custom_resources'', exclude = [''**'', ''!before_install.py'']\<rparr>,
        runtime = PYTHON_3_8,
        handler = ''before_install.handler'',
        role = hooks_customLambdaServiceRole,
        functionName = Some ''blue-green-ecs-before-install'',
        description =
          ''Deployment lifecycle hook to clean up listener rules before install replacement taskset'',
        environment = Some
          [(''APP_ALB'', loadBalancerArn a),
           (''ALB_PROD_LISTENER'', listenerArn l)],
        memorySize = 128,
        timeout = seconds 60\<rparr>,
     afterAllowTestTrafficLambda =
       \<lparr>functionId = ''afterAllowTestTrafficLambda'',
        code = \<lparr>assetDir = ''custom_resources'',
                exclude = [''**'', ''!after_allow_test_traffic.py'']\<rparr>,
        runtime = PYTHON_3_8,
        handler = ''after_allow_test_traffic.handler'',
        role = hooks_customLambdaServiceRole,
        functionName = Some ''blue-green-ecs-after-allow-test-traffic'',
        description = ''Deployment lifecycle hook for testing'',
        environment = Some
          [(''APP_ALB'', loadBalancerArn a),
           (''ALB_TG_X'', targetGroupArn x),
           (''ALB_TG_Y'', targetGroupArn y),
           (''ALB_PROD_LISTENER'', listenerArn l),
           (''HTTP_HEADER_NAME'', ''counter_no''),
           (''HTTP_HEADER_VALUE_LIST'', ''88888,99999'')],
        memorySize = 128,
        timeout = seconds 60\<rparr>,
     beforeAllowTrafficLambda =
       \<lparr>functionId = ''beforeAllowTrafficLambda'',
        code = \<lparr>assetDir = ''custom_resources'',
                exclude = [''**'', ''!before_allow_traffic.py'']\<rparr>,
        runtime = PYTHON_3_8,
        handler = ''before_allow_traffic.handler'',
        role = hooks_customLambdaServiceRole,
        functionName = Some ''blue-green-ecs-before-allow-traffic'',
        description = ''Deployment lifecycle hook to clean up tests'',
        environment = Some
          [(''APP_ALB'', loadBalancerArn a),
           (''ALB_PROD_LISTENER'', listenerArn l)],
        memorySize = 128,
        timeout = seconds 60\<rparr>\<rparr>"
  using assms unfolding new_EcsBlueGreenDeploymentHooks_def
  by (simp add: Let_def push_def new_DeploymentHook_def get_functionName_def)

text \<open>An undefined prop makes the constructor throw.\<close>

lemma new_hooks_throws:
  assumes "EcsBlueGreenDeploymentHookProps.alb props = None \<or> targetGroupX props = None
     \<or> targetGroupY props = None \<or> prodListener props = None"
  shows "new_EcsBlueGreenDeploymentHooks cid props = None"
  using assms unfolding new_EcsBlueGreenDeploymentHooks_def
  by (auto simp: Let_def split: Option.bind_splits)

lemma hooks_environments:
  assumes "new_EcsBlueGreenDeploymentHooks cid props = Some h"
    and "EcsBlueGreenDeploymentHookProps.alb props = Some a" and "prodListener props = Some l"
    and "targetGroupX props = Some x" and "targetGroupY props = Some y"
  shows "environment (BeforeInstallLambda h) =
           Some [(''APP_ALB'', loadBalancerArn a), (''ALB_PROD_LISTENER'', listenerArn l)]"
    and "environment (afterAllowTestTrafficLambda h) =
           Some [(''APP_ALB'', loadBalancerArn a),
                 (''ALB_TG_X'', targetGroupArn x),
                 (''ALB_TG_Y'', targetGroupArn y),
                 (''ALB_PROD_LISTENER'', listenerArn l),
                 (''HTTP_HEADER_NAME'', ''counter_no''),
                 (''HTTP_HEADER_VALUE_LIST'', ''88888,99999'')]"
    and "environment (beforeAllowTrafficLambda h) =
           Some [(''APP_ALB'', loadBalancerArn a), (''ALB_PROD_LISTENER'', listenerArn l)]"
  using new_hooks_value [OF assms(2,4,5,3), of cid] assms(1) by auto

lemma sample_hooks_defined:
  obtains h where "new_EcsBlueGreenDeploymentHooks ''hooks'' sample_hook_props = Some h"
  using new_hooks_value [of sample_hook_props _ _ _ _ "''hooks''"]
  by (simp add: sample_hook_props_def)

text \<open>
  Claim C1. Every hooks component has exactly three handlers, those of the hook points
  BeforeInstall, AfterAllowTestTraffic and BeforeAllowTraffic, and its \<open>deploymentHooks\<close>
  list holds their three function names in that order: the list is what \<open>DeploymentHook\<close>
  makes of the handlers' function names, the handlers run \<open>before_install.handler\<close>,
  \<open>after_allow_test_traffic.handler\<close> and \<open>before_allow_traffic.handler\<close>.
\<close>

theorem hooks_registered_in_lifecycle_order:
  assumes "new_EcsBlueGreenDeploymentHooks cid props = Some h"
  shows "deploymentHooks h =
           Some [\<lparr>name = Str ''blue-green-ecs-before-install''\<rparr>,
                 \<lparr>name = Str ''blue-green-ecs-after-allow-test-traffic''\<rparr>,
                 \<lparr>name = Str ''blue-green-ecs-before-allow-traffic''\<rparr>]
       \<and> deploymentHooks h = Some (map (new_DeploymentHook \<circ> get_functionName) (hookHandlers h))
       \<and> map handler (hookHandlers h) =
           [''before_install.handler'', ''after_allow_test_traffic.handler'',
            ''before_allow_traffic.handler'']
       \<and> map functionId (hookHandlers h) =
           [''BeforeInstallLambda'', ''afterAllowTestTrafficLambda'', ''beforeAllowTrafficLambda'']"
proof -
  from assms obtain a x y l where p: "EcsBlueGreenDeploymentHookProps.alb props = Some a"
    "targetGroupX props = Some x" "targetGroupY props = Some y" "prodListener props = Some l"
    by (rule new_hooks_SomeD)
  from new_hooks_value [OF p, of cid] assms show ?thesis
    by (auto simp: hookHandlers_def new_DeploymentHook_def get_functionName_def)
qed

theorem hooks_registered_in_lifecycle_order_witness:
  "new_EcsBlueGreenDeploymentHooks ''hooks'' sample_hook_props \<noteq> None
   \<and> map name
       (the (deploymentHooks (the (new_EcsBlueGreenDeploymentHooks ''hooks'' sample_hook_props))))
     = [Str ''blue-green-ecs-before-install'',
        Str ''blue-green-ecs-after-allow-test-traffic'',
        Str ''blue-green-ecs-before-allow-traffic'']"
proof -
  obtain h where h: "new_EcsBlueGreenDeploymentHooks ''hooks'' sample_hook_props = Some h"
    by (rule sample_hooks_defined)
  from hooks_registered_in_lifecycle_order [OF h] show ?thesis by (simp add: h)
qed

text \<open>
  Claim C2. In every hooks component the header name is \<open>counter_no\<close> and the value list is
  \<open>88888,99999\<close>; the AfterAllowTestTraffic handler finds them under \<open>HTTP_HEADER_NAME\<close>
  and \<open>HTTP_HEADER_VALUE_LIST\<close>. The list is passed as one string, whose comma-separated
  fields are 88888 and 99999.
\<close>

theorem test_traffic_header_binding:
  assumes "new_EcsBlueGreenDeploymentHooks cid props = Some h"
  shows "httpHeaderName h = ''counter_no''
       \<and> httpHeaderValueList h = ''88888,99999''
       \<and> envLookup (afterAllowTestTrafficLambda h) ''HTTP_HEADER_NAME'' = Some (httpHeaderName h)
       \<and> envLookup (afterAllowTestTrafficLambda h) ''HTTP_HEADER_VALUE_LIST''
           = Some (httpHeaderValueList h)
       \<and> splitOn CHR '','' (httpHeaderValueList h) = [''88888'', ''99999'']"
proof -
  from assms obtain a x y l where p: "EcsBlueGreenDeploymentHookProps.alb props = Some a"
    "targetGroupX props = Some x" "targetGroupY props = Some y" "prodListener props = Some l"
    by (rule new_hooks_SomeD)
  from new_hooks_value [OF p, of cid] assms show ?thesis
    by (auto simp: envLookup_def)
qed

theorem test_traffic_header_binding_witness:
  "new_EcsBlueGreenDeploymentHooks ''hooks'' sample_hook_props \<noteq> None
   \<and> envLookup (afterAllowTestTrafficLambda
         (the (new_EcsBlueGreenDeploymentHooks ''hooks'' sample_hook_props))) ''HTTP_HEADER_NAME''
       = Some ''counter_no''
   \<and> envLookup (afterAllowTestTrafficLambda
         (the (new_EcsBlueGreenDeploymentHooks ''hooks'' sample_hook_props)))
         ''HTTP_HEADER_VALUE_LIST''
       = Some ''88888,99999''"
proof -
  obtain h where h: "new_EcsBlueGreenDeploymentHooks ''hooks'' sample_hook_props = Some h"
    by (rule sample_hooks_defined)
  from test_traffic_header_binding [OF h] show ?thesis by (simp add: h)
qed





section \<open>The pipeline: its hooks, its deployment group and its Deploy stage\<close>

text \<open>
  The pipeline's constructor returns for every props, service and alarms: it hands the hooks
  all four props. These are its parts.
\<close>

lemma new_pipeline_parts:
  fixes mkS :: "EcsBlueGreenServiceProps \<Rightarrow> EcsBlueGreenService"
    and mkA :: "EcsServiceAlarmsProps \<Rightarrow> 'alarm list option"
  obtains p h where
    "new_EcsBlueGreenPipeline mkS mkA str props = Some p"
    "ecsBlueGreenDeploymentHooks p = h"
    "new_EcsBlueGreenDeploymentHooks ''hooks''
       \<lparr>targetGroupX = Some (EcsBlueGreenService.blueTargetGroup (ecsBlueGreenService p)),
        targetGroupY = Some (EcsBlueGreenService.greenTargetGroup (ecsBlueGreenService p)),
        EcsBlueGreenDeploymentHookProps.alb = Some (EcsBlueGreenService.alb (ecsBlueGreenService p)),
        prodListener = Some (albProdListener (ecsBlueGreenService p))\<rparr> = Some h"
    "pipeline p =
       \<lparr>pipelineId = ''ecsBlueGreen'',
        Pipeline.role =
          addToPolicy (new_Role ''codePipelineRole'' (ServicePrincipal ''codepipeline.amazonaws.com''))
            codePipelinePolicy,
        artifactBucket = ''artifactsBucket'',
        stages =
          [\<lparr>stageName = ''Source'',
            StageProps.actions =
              [CodeCommitSourceAction ''Source'' (codeRepoName props) (Artifact ''sourceArtifact'')
                 ''main'']\<rparr>,
           \<lparr>stageName = ''Build'',
            StageProps.actions =
              [CodeBuildAction ''Build'' (codeBuildProjectName props) (Artifact ''sourceArtifact'')
                 [Artifact ''buildArtifact'']]\<rparr>,
           \<lparr>stageName = ''Deploy'',
            StageProps.actions =
              [CodeDeployEcsDeployAction ''Deploy''
                 (ecsDeploymentGroup (ecsBlueGreenDeploymentGroup p))
                 (Artifact ''buildArtifact'') (Artifact ''buildArtifact'')]\<rparr>],
        dependencies = [groupId (ecsBlueGreenDeploymentGroup p)]\<rparr>"
    "ecsBlueGreenDeploymentGroup p =
       new_EcsBlueGreenDeploymentGroup str ''ecsApplication''
         \<lparr>EcsBlueGreenDeploymentGroupProps.deploymentGroupName =
            EcsBlueGreenPipelineProps.apiName props,
          EcsBlueGreenDeploymentGroupProps.deploymentConfigName =
            EcsBlueGreenPipelineProps.deploymentConfigName props,
          terminationWaitTime = taskSetTerminationTimeInMinutes props,
          deploymentReadyWaitTime = deploymentReadyWaitTimeinMinutes props,
          blueTargetGroupName =
            Some (targetGroupName (EcsBlueGreenService.blueTargetGroup (ecsBlueGreenService p))),
          greenTargetGroupName =
            Some (targetGroupName (EcsBlueGreenService.greenTargetGroup (ecsBlueGreenService p))),
          targetGroupAlarms = ecsServiceAlarms p,
          prodListenerArn = Some (listenerArn (albProdListener (ecsBlueGreenService p))),
          testListenerArn = Some (listenerArn (albTestListener (ecsBlueGreenService p))),
          ecsClusterName = map_option clusterName (EcsBlueGreenPipelineProps.cluster props),
          ecsServiceName = Some (serviceName (ecsService (ecsBlueGreenService p)))\<rparr>"
proof -
  let ?s = "mkS
       \<lparr>EcsBlueGreenServiceProps.containerPort = EcsBlueGreenPipelineProps.containerPort props,
        EcsBlueGreenServiceProps.apiName = EcsBlueGreenPipelineProps.apiName props,
        ecrRepository = ecrRepoName props,
        ecsTaskRole = ecsTaskRoleArn props,
        EcsBlueGreenServiceProps.vpc = EcsBlueGreenPipelineProps.vpc props,
        EcsBlueGreenServiceProps.cluster = EcsBlueGreenPipelineProps.cluster props\<rparr>"
  let ?hp = "\<lparr>targetGroupX = Some (EcsBlueGreenService.blueTargetGroup ?s),
        targetGroupY = Some (EcsBlueGreenService.greenTargetGroup ?s),
        EcsBlueGreenDeploymentHookProps.alb = Some (EcsBlueGreenService.alb ?s),
        prodListener = Some (albProdListener ?s)\<rparr>"
  obtain h where h: "new_EcsBlueGreenDeploymentHooks ''hooks'' ?hp = Some h"
    using new_hooks_value [of ?hp _ _ _ _ "''hooks''"] by simp
  define p where "p = the (new_EcsBlueGreenPipeline mkS mkA str props)"
  note defs = p_def new_EcsBlueGreenPipeline_def Let_def h addDependency_def
  have 1: "new_EcsBlueGreenPipeline mkS mkA str props = Some p" by (simp add: defs)
  have 2: "ecsBlueGreenDeploymentHooks p = h" by (simp add: defs)
  have 3: "ecsBlueGreenService p = ?s" by (simp add: defs)
  show ?thesis
    apply (rule that [OF 1 2])
      apply (simp add: 3 h)
     apply (simp add: defs)
    apply (simp add: defs)
    done
qed




text \<open>What a deployment-group construct exposes is what it asks the registrar to create.\<close>

lemma new_group_exposes:
  "groupId (new_EcsBlueGreenDeploymentGroup str cid gp) = cid"
  "IEcsDeploymentGroup.deploymentGroupName
     (ecsDeploymentGroup (new_EcsBlueGreenDeploymentGroup str cid gp))
   = EcsBlueGreenDeploymentGroupProps.deploymentGroupName gp"
  "map_of (properties (customEcsDeploymentGroup (new_EcsBlueGreenDeploymentGroup str cid gp)))
     ''DeploymentGroupName''
   = Some (str_value (EcsBlueGreenDeploymentGroupProps.deploymentGroupName gp))"
  "map_of (properties (customEcsDeploymentGroup (new_EcsBlueGreenDeploymentGroup str cid gp)))
     ''ApplicationName''
   = Some (applicationName
       (application (ecsDeploymentGroup (new_EcsBlueGreenDeploymentGroup str cid gp))))"
  by (simp_all add: new_EcsBlueGreenDeploymentGroup_def Let_def)


section \<open>The registrar's invocation and the configuration surface\<close>


text \<open>
  Claim C6. The stack's parameter \<open>deploymentConfigName\<close> admits exactly five values, the
  policies ECSLinear10PercentEvery1Minutes, ECSLinear10PercentEvery3Minutes,
  ECSCanary10Percent5Minutes, ECSCanary10Percent15Minutes and ECSAllAtOnce, each under its full
  name with the prefix \<open>CodeDeployDefault.\<close>; its default is the first of them.
\<close>

theorem deployment_config_closed_set:
  "admissible stack_deploymentConfigName v =
     (v \<in> set (map (\<lambda>policy. ''CodeDeployDefault.'' @ policy)
        [''ECSLinear10PercentEvery1Minutes'',
         ''ECSLinear10PercentEvery3Minutes'',
         ''ECSCanary10Percent5Minutes'',
         ''ECSCanary10Percent15Minutes'',
         ''ECSAllAtOnce'']))
   \<and> map_option length (allowedValues stack_deploymentConfigName) = Some 5
   \<and> defaultValue stack_deploymentConfigName
       = Some (''CodeDeployDefault.'' @ ''ECSLinear10PercentEvery1Minutes'')
   \<and> admissible stack_deploymentConfigName
         (''CodeDeployDefault.'' @ ''ECSLinear10PercentEvery1Minutes'')"
  by (simp add: admissible_def stack_deploymentConfigName_def)


section \<open>The registrar's upsert\<close>

lemma updateMutable_named [simp]: "named n (updateMutable x g) = named n x"
  by (simp add: named_def updateMutable_def)

lemma updateMutable_idem [simp]: "updateMutable (updateMutable x g) g = updateMutable x g"
  by (simp add: updateMutable_def)

lemma updateMutable_self [simp]: "updateMutable g g = g"
  by (simp add: updateMutable_def)

lemma updateMutable_fixed [simp]:
  "dgBlueTargetGroup (updateMutable x g) = dgBlueTargetGroup x"
  "dgGreenTargetGroup (updateMutable x g) = dgGreenTargetGroup x"
  "dgName (updateMutable x g) = dgName x"
  by (simp_all add: updateMutable_def)

lemma find_map_update:
  "find (named n) (map (\<lambda>x. if named n x then updateMutable x g else x) reg)
     = map_option (\<lambda>x. updateMutable x g) (find (named n) reg)"
  by (induction reg) auto

lemma map_update_idem:
  "map (\<lambda>x. if named n x then updateMutable x g else x)
     (map (\<lambda>x. if named n x then updateMutable x g else x) reg)
   = map (\<lambda>x. if named n x then updateMutable x g else x) reg"
  by (induction reg) auto

lemma map_update_absent:
  "find (named n) reg = None \<Longrightarrow>
   map (\<lambda>x. if named n x then updateMutable x g else x) reg = reg"
  by (induction reg) (auto split: if_splits)

lemma find_append_new:
  "find (named (dgName g)) reg = None \<Longrightarrow> find (named (dgName g)) (reg @ [g]) = Some g"
  by (induction reg) (auto simp: named_def split: if_splits)

text \<open>A retry of an upsert that succeeded succeeds and changes nothing.\<close>

lemma upsert_retry:
  assumes "upsert g reg = Inr (h, reg')"
  shows "upsert g reg' = Inr (h, reg')"
proof (cases "find (named (dgName g)) reg")
  case None
  with assms have r: "reg' = reg @ [g]" "h = dgName g"
    and ok: "dgConfigName g \<in> set trafficShiftPolicies"
    by (auto simp: upsert_def Let_def split: if_splits)
  from None show ?thesis
    by (simp add: upsert_def Let_def r ok find_append_new map_update_absent)
next
  case (Some e)
  with assms have r: "reg' = map (\<lambda>x. if named (dgName g) x then updateMutable x g else x) reg"
      "h = dgName g"
    and ok: "dgConfigName g \<in> set trafficShiftPolicies"
    and tg: "dgBlueTargetGroup e = dgBlueTargetGroup g" "dgGreenTargetGroup e = dgGreenTargetGroup g"
    by (auto simp: upsert_def Let_def split: if_splits)
  show ?thesis
    by (simp add: upsert_def Let_def r ok find_map_update Some tg map_update_idem)
qed

lemma upsertTwice_eq: "upsertTwice g reg = upsert g reg"
  by (auto simp: upsertTwice_def upsert_retry split: sum.splits)

lemma count_named_distinct:
  "distinct (map dgName reg) \<Longrightarrow> find (named n) reg = Some e \<Longrightarrow>
   length (filter (named n) reg) = 1"
proof (induction reg)
  case Nil
  then show ?case by simp
next
  case (Cons x xs)
  show ?case
  proof (cases "named n x")
    case True
    have "n \<notin> dgName ` set xs"
      using Cons.prems(1) True by (auto simp: named_def)
    then have "\<forall>y\<in>set xs. \<not> named n y"
      by (auto simp: named_def image_iff)
    then have "filter (named n) xs = []" by (simp add: filter_empty_conv)
    with True show ?thesis by simp
  next
    case False
    with Cons show ?thesis by simp
  qed
qed

lemma filter_named_update:
  "filter (named n) (map (\<lambda>x. if named n x then updateMutable x g else x) reg)
     = map (\<lambda>x. updateMutable x g) (filter (named n) reg)"
  by (induction reg) auto

lemma names_update:
  "dgName \<circ> (\<lambda>x. if named n x then updateMutable x g else x) = dgName"
  by (auto simp: fun_eq_iff)

lemma find_None_filter: "find P xs = None \<Longrightarrow> filter P xs = []"
  by (induction xs) (auto split: if_splits)

lemma find_None_name:
  "find (named n) reg = None \<Longrightarrow> n \<notin> dgName ` set reg"
  by (induction reg) (auto simp: named_def split: if_splits)

text \<open>In a registry with one group to a name, an upsert leaves one group of the given name.\<close>

lemma upsert_single:
  assumes "distinct (map dgName reg)" and "upsert g reg = Inr (h, reg')"
  shows "length (filter (named (dgName g)) reg') = 1 \<and> distinct (map dgName reg') \<and> h = dgName g"
proof (cases "find (named (dgName g)) reg")
  case None
  with assms(2) have r: "reg' = reg @ [g]" "h = dgName g"
    by (auto simp: upsert_def Let_def split: if_splits)
  from None assms(1) show ?thesis
    by (simp add: r find_None_filter find_None_name) (simp add: named_def)
next
  case (Some e)
  with assms(2) have r: "reg' = map (\<lambda>x. if named (dgName g) x then updateMutable x g else x) reg"
      "h = dgName g"
    by (auto simp: upsert_def Let_def split: if_splits)
  from count_named_distinct [OF assms(1) Some] assms(1) show ?thesis
    by (simp add: r filter_named_update names_update)
qed

text \<open>
  Claim C7. For every deployment-group spec and every registry, an upsert followed by the
  identical upsert gives what the one upsert gives: the same handle and the same registry, or
  the same error. Where the registry had one group to a name, the registry then has exactly
  one group of the spec's name, and still one group to a name.
\<close>

theorem registrar_upsert_idempotent:
  "upsertTwice g reg = upsert g reg
   \<and> (distinct (map dgName reg) \<longrightarrow>
        (case upsertTwice g reg of
           Inl e \<Rightarrow> e = InvalidConfig \<or> e = RegistrationConflict
         | Inr (h, reg') \<Rightarrow>
             h = dgName g \<and> length (filter (named (dgName g)) reg') = 1
             \<and> distinct (map dgName reg')))"
proof (intro conjI impI)
  show "upsertTwice g reg = upsert g reg" by (rule upsertTwice_eq)
next
  assume d: "distinct (map dgName reg)"
  show "case upsertTwice g reg of
           Inl e \<Rightarrow> e = InvalidConfig \<or> e = RegistrationConflict
         | Inr (h, reg') \<Rightarrow>
             h = dgName g \<and> length (filter (named (dgName g)) reg') = 1
             \<and> distinct (map dgName reg')"
  proof (cases "upsert g reg")
    case (Inl e)
    then show ?thesis by (cases e) (simp_all add: upsertTwice_eq)
  next
    case (Inr hr)
    obtain h reg' where hr: "hr = (h, reg')" by (cases hr)
    from upsert_single [OF d Inr [unfolded hr]] show ?thesis
      by (simp add: upsertTwice_eq Inr hr)
  qed
qed

text \<open>
  On the registry that holds the group \<open>books\<close>, an upsert of the same group with its alarms
  removed, done twice, leaves the one group \<open>books\<close>, without alarms.
\<close>

theorem registrar_upsert_idempotent_witness:
  "distinct (map dgName [sample_group])
   \<and> upsertTwice (sample_group\<lparr>dgAlarms := []\<rparr>) [sample_group]
       = Inr (''books'', [sample_group\<lparr>dgAlarms := []\<rparr>])
   \<and> upsert (sample_group\<lparr>dgAlarms := []\<rparr>) [sample_group]
       = Inr (''books'', [sample_group\<lparr>dgAlarms := []\<rparr>])"
proof -
  have d: "distinct (map dgName [sample_group])" by simp
  have u: "upsert (sample_group\<lparr>dgAlarms := []\<rparr>) [sample_group]
       = Inr (''books'', [sample_group\<lparr>dgAlarms := []\<rparr>])"
    by (simp add: upsert_def Let_def sample_group_def trafficShiftPolicies_def
        stack_deploymentConfigName_def named_def updateMutable_def)
  from registrar_upsert_idempotent [of "sample_group\<lparr>dgAlarms := []\<rparr>" "[sample_group]"] d u
  show ?thesis by simp
qed

section \<open>The rule controller's isolateTestTraffic\<close>

lemma isolate_present:
  assumes "st a = Some lb" and "l \<in> set (listeners lb)" and "t \<in> set (targetGroups lb)"
    and "\<lparr>ruleListener = l, matchHeaderName = fst m, matchHeaderValues = snd m, ruleTarget = t\<rparr>
           \<in> set (rules lb)"
  shows "isolateRepeatedly k a l t m st = Inr st"
  using assms by (induction k) (simp_all add: isolateTestTraffic_def Let_def)

lemma isolate_first:
  assumes "st a = Some lb" and "l \<in> set (listeners lb)" and "t \<in> set (targetGroups lb)"
  shows "isolateTestTraffic a l t m st =
     Inr (\<lparr>ruleListener = l, matchHeaderName = fst m, matchHeaderValues = snd m, ruleTarget = t\<rparr>,
          if \<lparr>ruleListener = l, matchHeaderName = fst m, matchHeaderValues = snd m, ruleTarget = t\<rparr>
               \<in> set (rules lb)
          then st
          else st(a \<mapsto> lb\<lparr>rules := rules lb @
            [\<lparr>ruleListener = l, matchHeaderName = fst m, matchHeaderValues = snd m,
              ruleTarget = t\<rparr>]\<rparr>))"
  using assms by (simp add: isolateTestTraffic_def Let_def)

text \<open>
  Claim C8. On a load balancer that has the listener and the target group, and whose listener
  carries no test-isolation rule yet, every sequence of one or more identical
  \<open>isolateTestTraffic\<close> calls succeeds and leaves exactly one test-isolation rule on the
  listener, the one asked for; the whole sequence leaves what its first call leaves.
\<close>

theorem isolateTestTraffic_idempotent:
  assumes "st a = Some lb" and "l \<in> set (listeners lb)" and "t \<in> set (targetGroups lb)"
    and "rulesOn st a l = []"
  shows "\<exists>st'. isolateRepeatedly (Suc k) a l t m st = Inr st'
     \<and> rulesOn st' a l =
         [\<lparr>ruleListener = l, matchHeaderName = fst m, matchHeaderValues = snd m, ruleTarget = t\<rparr>]
     \<and> isolateRepeatedly (Suc k) a l t m st = isolateRepeatedly 1 a l t m st"
proof -
  let ?r = "\<lparr>ruleListener = l, matchHeaderName = fst m, matchHeaderValues = snd m, ruleTarget = t\<rparr>"
  let ?lb = "lb\<lparr>rules := rules lb @ [?r]\<rparr>"
  let ?st = "st(a \<mapsto> ?lb)"
  from assms(1,4) have clean: "filter (\<lambda>r. ruleListener r = l) (rules lb) = []"
    by (simp add: rulesOn_def)
  then have absent: "?r \<notin> set (rules lb)"
    by (auto simp: filter_empty_conv)
  have first: "isolateTestTraffic a l t m st = Inr (?r, ?st)"
    using isolate_first [of st a lb l t m] assms(1-3) absent by simp
  have rest: "isolateRepeatedly j a l t m ?st = Inr ?st" for j
    using isolate_present [of ?st a ?lb l t m j] assms(2,3) by simp
  have "rulesOn ?st a l = [?r]"
    by (simp add: rulesOn_def clean)
  with first rest show ?thesis by simp
qed

theorem isolateTestTraffic_idempotent_witness:
  "sample_balancers ''arn:alb'' \<noteq> None
   \<and> rulesOn sample_balancers ''arn:alb'' ''arn:listener/test'' = []
   \<and> map_sum id (\<lambda>st. rulesOn st ''arn:alb'' ''arn:listener/test'')
       (isolateRepeatedly 3 ''arn:alb'' ''arn:listener/test'' ''arn:tg/green''
          (''counter_no'', [''88888'', ''99999'']) sample_balancers)
     = Inr [\<lparr>ruleListener = ''arn:listener/test'', matchHeaderName = ''counter_no'',
             matchHeaderValues = [''88888'', ''99999''], ruleTarget = ''arn:tg/green''\<rparr>]"
proof -
  have 1: "sample_balancers ''arn:alb'' = Some
        \<lparr>listeners = [''arn:listener/prod'', ''arn:listener/test''],
         targetGroups = [''arn:tg/blue'', ''arn:tg/green''],
         rules = []\<rparr>"
    by (simp add: sample_balancers_def)
  have 2: "rulesOn sample_balancers ''arn:alb'' ''arn:listener/test'' = []"
    by (simp add: rulesOn_def 1)
  from isolateTestTraffic_idempotent
    [of sample_balancers "''arn:alb''" _ "''arn:listener/test''" "''arn:tg/green''" 2
      "(''counter_no'', [''88888'', ''99999''])"] 1 2
  show ?thesis by (auto simp: numeral_3_eq_3)
qed

text \<open>
  The rollback after an alarm (claim C9) is the deployment service's own: the sources bind the
  alarms to the deployment group (\<open>TargetGroupAlarms\<close> above) and revert no listener
  themselves, so that claim has no statement over these definitions.
\<close>


end
